theory Spec2Isabelle
  imports Main "HOL-Library.Word" "HOL-Library.Multiset"
begin

section \<open>Load-balancer controller utilities (pkg/util/lb/lb.go)\<close>

text \<open>
  A shallow embedding of the pure helpers of \<^verbatim>\<open>pkg/util/lb/lb.go\<close>:
  \<^verbatim>\<open>SplitNamespaceAndNameByDot\<close>, \<^verbatim>\<open>PodStatusesEqual\<close>, \<^verbatim>\<open>ProxyStatusEqual\<close>,
  \<^verbatim>\<open>IpvsdrProviderStatusEqual\<close>, \<^verbatim>\<open>CalculateReplicas\<close> and \<^verbatim>\<open>ComputePodStatus\<close>.
  Go structs are records, Go pointers that the code tests against \<^verbatim>\<open>nil\<close> are options,
  \<^verbatim>\<open>int32\<close> is a 32-bit word read with \<open>sint\<close>, strings are byte lists, and the one
  error return is a sum type. A function with a pointer parameter (\<^verbatim>\<open>*v1.Pod\<close>,
  \<^verbatim>\<open>*lbapi.LoadBalancer\<close>) is modelled in two layers: the function on the struct that
  a non-nil pointer points to, and the function on the pointer itself, an option, which
  panics on \<^verbatim>\<open>nil\<close> as the first field access of the Go function does.
\<close>

subsection \<open>Machine integers and formatting\<close>

type_synonym int32 = "32 word"

text \<open>The Go conversion \<^verbatim>\<open>int32(n)\<close> of an \<^verbatim>\<open>int\<close>: the low 32 bits.\<close>

definition int32_of_int :: "int \<Rightarrow> int32" where
  "int32_of_int n = word_of_int n"

text \<open>\<^verbatim>\<open>len(xs)\<close>, a Go \<^verbatim>\<open>int\<close>. A slice length always fits the type.\<close>

definition len :: "'a list \<Rightarrow> int" where
  "len xs = int (length xs)"

text \<open>The verb \<^verbatim>\<open>%d\<close> of \<^verbatim>\<open>fmt.Sprintf\<close>: decimal digits, a minus sign when negative.\<close>

definition digit_char :: "nat \<Rightarrow> char" where
  "digit_char d = ''0123456789'' ! d"

fun decimal :: "nat \<Rightarrow> string" where
  "decimal n = (if n < 10 then [digit_char n] else decimal (n div 10) @ [digit_char (n mod 10)])"

definition fmt_d :: "int \<Rightarrow> string" where
  "fmt_d i = (if i < 0 then CHR ''-'' # decimal (nat (- i)) else decimal (nat i))"

subsection \<open>The Kubernetes pod, as far as the code reads it\<close>

text \<open>
  The types of \<^verbatim>\<open>k8s.io/client-go/pkg/api/v1\<close> are declared outside this repository.
  The records below carry the fields that \<^verbatim>\<open>ComputePodStatus\<close> reads; the three
  sub-states of a container state are independent pointers, as in the Go struct.
\<close>

record ContainerStateWaiting =
  waiting_Reason :: string
  waiting_Message :: string

record ContainerStateRunning =
  StartedAt :: int

record ContainerStateTerminated =
  ExitCode :: int32
  Signal :: int32
  terminated_Reason :: string
  terminated_Message :: string

record ContainerState =
  Waiting :: "ContainerStateWaiting option"
  Running :: "ContainerStateRunning option"
  Terminated :: "ContainerStateTerminated option"

record ContainerStatus =
  container_Name :: string
  State :: ContainerState
  container_Ready :: bool
  RestartCount :: int32

record Container =
  c_Name :: string
  Image :: string

record PodSpec =
  Containers :: "Container list"
  spec_NodeName :: string

record v1_PodStatus =
  Phase :: string
  status_Reason :: string
  ContainerStatuses :: "ContainerStatus list"

record Pod =
  pod_Name :: string
  DeletionTimestamp :: "int option"
  Spec :: PodSpec
  Status :: v1_PodStatus

subsection \<open>The summarized worker status\<close>

text \<open>
  Modelled from the spec: the struct \<^verbatim>\<open>lbapi.PodStatus\<close> is declared in the clientset
  package, outside this repository. Its fields are the six that the spec's data model
  lists for a WorkerStatus and that \<^verbatim>\<open>ComputePodStatus\<close> fills.
\<close>

record PodStatus =
  Name :: string
  Ready :: bool
  NodeName :: string
  ReadyContainers :: int32
  TotalContainers :: int32
  Reason :: string

definition NodeUnreachablePodReason :: string where
  "NodeUnreachablePodReason = ''NodeLost''"

subsection \<open>ComputePodStatus\<close>

text \<open>The local variables that the loop over the container statuses updates.\<close>

record scan_state =
  restarts :: int
  readyContainers :: int
  reason :: string

text \<open>
  The loop body. \<^verbatim>\<open>restarts\<close> is a Go \<^verbatim>\<open>int\<close> that is summed and never read; its
  platform-dependent width is left out.
\<close>

definition scan_body :: "ContainerStatus \<Rightarrow> scan_state \<Rightarrow> scan_state" where
  "scan_body container s0 =
     (let s = s0\<lparr>restarts := restarts s0 + sint (RestartCount container)\<rparr>;
          waiting = Waiting (State container);
          terminated = Terminated (State container)
      in if waiting \<noteq> None \<and> waiting_Reason (the waiting) \<noteq> '''' then
           s\<lparr>reason := waiting_Reason (the waiting)\<rparr>
         else if terminated \<noteq> None \<and> terminated_Reason (the terminated) \<noteq> '''' then
           s\<lparr>reason := terminated_Reason (the terminated)\<rparr>
         else if terminated \<noteq> None \<and> terminated_Reason (the terminated) = '''' then
           (if Signal (the terminated) \<noteq> 0 then
              s\<lparr>reason := ''Signal:'' @ fmt_d (sint (Signal (the terminated)))\<rparr>
            else
              s\<lparr>reason := ''ExitCode:'' @ fmt_d (sint (ExitCode (the terminated)))\<rparr>)
         else if container_Ready container \<and> Running (State container) \<noteq> None then
           s\<lparr>readyContainers := readyContainers s + 1\<rparr>
         else s)"

text \<open>
  The loop \<^verbatim>\<open>for i := len(cs) - 1; i >= 0; i--\<close>: the first argument counts the
  statuses still to visit, so that \<open>Suc i\<close> remaining means index \<open>i\<close> is visited next.
\<close>

fun scan :: "nat \<Rightarrow> ContainerStatus list \<Rightarrow> scan_state \<Rightarrow> scan_state" where
  "scan 0 cs s = s"
| "scan (Suc i) cs s = scan i cs (scan_body (cs ! i) s)"

definition ComputePodStatus :: "Pod \<Rightarrow> PodStatus" where
  "ComputePodStatus pod =
     (let totalContainers = len (Containers (Spec pod));
          reason0 = (if status_Reason (Status pod) \<noteq> '''' then status_Reason (Status pod)
                     else Phase (Status pod));
          s = scan (length (ContainerStatuses (Status pod))) (ContainerStatuses (Status pod))
                \<lparr>restarts = 0, readyContainers = 0, reason = reason0\<rparr>;
          ready = (readyContainers s = totalContainers);
          deleted = (DeletionTimestamp pod \<noteq> None);
          ready' = (if deleted then False else ready);
          reason' = (if deleted then
                       (if status_Reason (Status pod) = NodeUnreachablePodReason
                        then ''Unknown'' else ''Terminating'')
                     else reason s)
      in \<lparr>Name = pod_Name pod,
          Ready = ready',
          NodeName = spec_NodeName (Spec pod),
          ReadyContainers = int32_of_int (readyContainers s),
          TotalContainers = int32_of_int totalContainers,
          Reason = reason'\<rparr>)"

text \<open>
  What one pass of the loop body does to \<open>reason\<close> and \<open>readyContainers\<close>, read off
  the branches of \<open>scan_body\<close>: a status \<^emph>\<open>sets the reason\<close> when it takes one of the
  first three branches, \<open>container_reason\<close> is the text it then writes, and it is
  \<^emph>\<open>counted ready\<close> when it takes the fourth.
\<close>

definition sets_reason :: "ContainerStatus \<Rightarrow> bool" where
  "sets_reason c \<longleftrightarrow>
     (case Waiting (State c) of Some w \<Rightarrow> waiting_Reason w \<noteq> '''' | None \<Rightarrow> False)
     \<or> Terminated (State c) \<noteq> None"

definition terminated_text :: "ContainerStateTerminated \<Rightarrow> string" where
  "terminated_text t =
     (if terminated_Reason t \<noteq> '''' then terminated_Reason t
      else if Signal t \<noteq> 0 then ''Signal:'' @ fmt_d (sint (Signal t))
      else ''ExitCode:'' @ fmt_d (sint (ExitCode t)))"

definition container_reason :: "ContainerStatus \<Rightarrow> string" where
  "container_reason c =
     (case (Waiting (State c), Terminated (State c)) of
        (Some w, Some t) \<Rightarrow> if waiting_Reason w \<noteq> '''' then waiting_Reason w else terminated_text t
      | (Some w, None) \<Rightarrow> waiting_Reason w
      | (None, Some t) \<Rightarrow> terminated_text t
      | (None, None) \<Rightarrow> '''')"

definition counts_ready :: "ContainerStatus \<Rightarrow> bool" where
  "counts_ready c \<longleftrightarrow> \<not> sets_reason c \<and> container_Ready c \<and> Running (State c) \<noteq> None"

text \<open>Two pods differ only in the restart counts of their container statuses.\<close>

definition same_but_RestartCount :: "ContainerStatus \<Rightarrow> ContainerStatus \<Rightarrow> bool" where
  "same_but_RestartCount c c' \<longleftrightarrow>
     container_Name c = container_Name c' \<and> State c = State c' \<and>
     container_Ready c = container_Ready c'"

definition differ_only_in_RestartCount :: "Pod \<Rightarrow> Pod \<Rightarrow> bool" where
  "differ_only_in_RestartCount p p' \<longleftrightarrow>
     pod_Name p = pod_Name p' \<and> DeletionTimestamp p = DeletionTimestamp p' \<and>
     Spec p = Spec p' \<and> Phase (Status p) = Phase (Status p') \<and>
     status_Reason (Status p) = status_Reason (Status p') \<and>
     list_all2 same_but_RestartCount
       (ContainerStatuses (Status p)) (ContainerStatuses (Status p'))"

subsection \<open>SplitNamespaceAndNameByDot\<close>




subsection \<open>The equality of status aggregates\<close>

text \<open>
  Modelled from the spec: the structs \<^verbatim>\<open>lbapi.PodStatuses\<close>, \<^verbatim>\<open>lbapi.ProxyStatus\<close> and
  \<^verbatim>\<open>lbapi.IpvsdrProviderStatus\<close> are declared in the clientset package, outside this
  repository. The code shows that \<^verbatim>\<open>PodStatuses\<close> has a slice \<^verbatim>\<open>Statuses\<close> of
  \<^verbatim>\<open>PodStatus\<close> and that the two aggregates have a field \<^verbatim>\<open>PodStatuses\<close>; the spec says
  that the other fields are scalars (counters, names, a virtual IP). They are gathered in
  one field of an arbitrary type with a zero value, and \<^verbatim>\<open>reflect.DeepEqual\<close> on
  scalars, strings and structs of these is equality of values.
\<close>

record 'c PodStatuses =
  Statuses :: "PodStatus list"
  counters :: 'c

record ('c, 's) ProxyStatus =
  proxy_PodStatuses :: "'c PodStatuses"
  proxy_fields :: 's

record ('c, 's) IpvsdrProviderStatus =
  ipvsdr_PodStatuses :: "'c PodStatuses"
  ipvsdr_fields :: 's

definition DeepEqual :: "'a \<Rightarrow> 'a \<Rightarrow> bool" where
  "DeepEqual x y \<longleftrightarrow> x = y"

text \<open>The zero value \<^verbatim>\<open>lbapi.PodStatuses{}\<close>.\<close>

definition zero_PodStatuses :: "('c::zero) PodStatuses" where
  "zero_PodStatuses = \<lparr>Statuses = [], counters = 0\<rparr>"

text \<open>
  The inner loop of \<^verbatim>\<open>PodStatusesEqual\<close>: \<open>equal\<close> starts as false, the first \<open>bs\<close>
  with the name of \<open>as\<close> decides it, and the loop breaks there.
\<close>

fun match_by_name :: "PodStatus \<Rightarrow> PodStatus list \<Rightarrow> bool" where
  "match_by_name as [] = False"
| "match_by_name as (bs # bStatus) =
     (if Name as = Name bs then DeepEqual as bs else match_by_name as bStatus)"

text \<open>The outer loop: the first \<open>as\<close> without an equal match returns false.\<close>

fun all_matched :: "PodStatus list \<Rightarrow> PodStatus list \<Rightarrow> bool" where
  "all_matched [] bStatus = True"
| "all_matched (as # aStatus) bStatus =
     (if \<not> match_by_name as bStatus then False else all_matched aStatus bStatus)"

definition PodStatusesEqual :: "'c PodStatuses \<Rightarrow> 'c PodStatuses \<Rightarrow> bool" where
  "PodStatusesEqual a b =
     (let aStatus = Statuses a; bStatus = Statuses b
      in if length aStatus \<noteq> length bStatus then False
         else if \<not> DeepEqual (a\<lparr>Statuses := []\<rparr>) (b\<lparr>Statuses := []\<rparr>) then False
         else all_matched aStatus bStatus)"

definition ProxyStatusEqual :: "('c::zero, 's) ProxyStatus \<Rightarrow> ('c, 's) ProxyStatus \<Rightarrow> bool" where
  "ProxyStatusEqual a b =
     (if \<not> PodStatusesEqual (proxy_PodStatuses a) (proxy_PodStatuses b) then False
      else DeepEqual (a\<lparr>proxy_PodStatuses := zero_PodStatuses\<rparr>)
             (b\<lparr>proxy_PodStatuses := zero_PodStatuses\<rparr>))"

definition IpvsdrProviderStatusEqual ::
    "('c::zero, 's) IpvsdrProviderStatus \<Rightarrow> ('c, 's) IpvsdrProviderStatus \<Rightarrow> bool" where
  "IpvsdrProviderStatusEqual a b =
     (if \<not> PodStatusesEqual (ipvsdr_PodStatuses a) (ipvsdr_PodStatuses b) then False
      else DeepEqual (a\<lparr>ipvsdr_PodStatuses := zero_PodStatuses\<rparr>)
             (b\<lparr>ipvsdr_PodStatuses := zero_PodStatuses\<rparr>))"

subsection \<open>CalculateReplicas\<close>

text \<open>The fields of \<^verbatim>\<open>lbapi.LoadBalancer\<close> that the function reads.\<close>

record NodesSpec =
  Replicas :: "int32 option"
  Names :: "string list"

record LoadBalancerSpec =
  Nodes :: NodesSpec

record LoadBalancer =
  lb_Spec :: LoadBalancerSpec

definition CalculateReplicas :: "LoadBalancer \<Rightarrow> int32 \<times> bool" where
  "CalculateReplicas lb =
     (let replicas = (case Replicas (Nodes (lb_Spec lb)) of Some r \<Rightarrow> r | None \<Rightarrow> 0);
          needNodeAffinity = False
      in if len (Names (Nodes (lb_Spec lb))) \<noteq> 0
         then (int32_of_int (len (Names (Nodes (lb_Spec lb)))), True)
         else (replicas, needNodeAffinity))"

subsection \<open>Pointer arguments\<close>




subsection \<open>Changing one worker of an aggregate\<close>

text \<open>
  The worker at position \<open>i\<close> gets new values for \<open>Ready\<close>, \<open>NodeName\<close> and
  \<open>Reason\<close>; its other fields and all other workers stay as they are.
\<close>

definition change_fields :: "bool \<Rightarrow> string \<Rightarrow> string \<Rightarrow> PodStatus \<Rightarrow> PodStatus" where
  "change_fields r n rs w = w\<lparr>Ready := r, NodeName := n, Reason := rs\<rparr>"

definition change_worker ::
    "nat \<Rightarrow> bool \<Rightarrow> string \<Rightarrow> string \<Rightarrow> 'c PodStatuses \<Rightarrow> 'c PodStatuses" where
  "change_worker i r n rs a =
     a\<lparr>Statuses := (Statuses a)[i := change_fields r n rs (Statuses a ! i)]\<rparr>"

definition proxy_change_worker ::
    "nat \<Rightarrow> bool \<Rightarrow> string \<Rightarrow> string \<Rightarrow> ('c, 's) ProxyStatus \<Rightarrow> ('c, 's) ProxyStatus" where
  "proxy_change_worker i r n rs p =
     p\<lparr>proxy_PodStatuses := change_worker i r n rs (proxy_PodStatuses p)\<rparr>"

subsection \<open>Example inputs\<close>

definition running_status :: "string \<Rightarrow> int32 \<Rightarrow> ContainerStatus" where
  "running_status n k =
     \<lparr>container_Name = n,
      State = \<lparr>Waiting = None, Running = Some \<lparr>StartedAt = 0\<rparr>, Terminated = None\<rparr>,
      container_Ready = True, RestartCount = k\<rparr>"

definition waiting_status :: "string \<Rightarrow> string \<Rightarrow> int32 \<Rightarrow> ContainerStatus" where
  "waiting_status n r k =
     \<lparr>container_Name = n,
      State = \<lparr>Waiting = Some \<lparr>waiting_Reason = r, waiting_Message = ''''\<rparr>,
               Running = None, Terminated = None\<rparr>,
      container_Ready = False, RestartCount = k\<rparr>"

definition terminated_status :: "string \<Rightarrow> int32 \<Rightarrow> int32 \<Rightarrow> ContainerStatus" where
  "terminated_status n sig code =
     \<lparr>container_Name = n,
      State = \<lparr>Waiting = None, Running = None,
               Terminated = Some \<lparr>ExitCode = code, Signal = sig, terminated_Reason = '''',
                                  terminated_Message = ''''\<rparr>\<rparr>,
      container_Ready = False, RestartCount = 1\<rparr>"

definition mk_pod ::
    "Container list \<Rightarrow> ContainerStatus list \<Rightarrow> int option \<Rightarrow> string \<Rightarrow> Pod" where
  "mk_pod cs sts del r =
     \<lparr>pod_Name = ''lb-proxy-0'', DeletionTimestamp = del,
      Spec = \<lparr>Containers = cs, spec_NodeName = ''node-1''\<rparr>,
      Status = \<lparr>Phase = ''Running'', status_Reason = r, ContainerStatuses = sts\<rparr>\<rparr>"

definition two_containers :: "Container list" where
  "two_containers =
     [\<lparr>c_Name = ''proxy'', Image = ''nginx''\<rparr>, \<lparr>c_Name = ''sidecar'', Image = ''keepalived''\<rparr>]"

definition worker :: "string \<Rightarrow> bool \<Rightarrow> PodStatus" where
  "worker n r =
     \<lparr>Name = n, Ready = r, NodeName = ''node-1'', ReadyContainers = 1, TotalContainers = 1,
      Reason = ''Running''\<rparr>"

definition mk_statuses :: "PodStatus list \<Rightarrow> int32 PodStatuses" where
  "mk_statuses ws = \<lparr>Statuses = ws, counters = 2\<rparr>"

definition mk_proxy :: "PodStatus list \<Rightarrow> (int32, string) ProxyStatus" where
  "mk_proxy ws = \<lparr>proxy_PodStatuses = mk_statuses ws, proxy_fields = ''lb-proxy''\<rparr>"

definition mk_ipvsdr :: "PodStatus list \<Rightarrow> (int32, string) IpvsdrProviderStatus" where
  "mk_ipvsdr ws = \<lparr>ipvsdr_PodStatuses = mk_statuses ws, ipvsdr_fields = ''10.0.0.1''\<rparr>"

definition mk_lb :: "int32 option \<Rightarrow> string list \<Rightarrow> LoadBalancer" where
  "mk_lb r ns = \<lparr>lb_Spec = \<lparr>Nodes = \<lparr>Replicas = r, Names = ns\<rparr>\<rparr>\<rparr>"

section \<open>Properties of ComputePodStatus\<close>

lemmas pod_example_defs =
  running_status_def waiting_status_def terminated_status_def mk_pod_def two_containers_def

lemmas compute_defs = ComputePodStatus_def scan_body_def len_def int32_of_int_def Let_def

subsection \<open>The loop as a fold\<close>

lemma scan_foldr: "n \<le> length cs \<Longrightarrow> scan n cs s = foldr scan_body (take n cs) s"
  by (induction n arbitrary: s) (simp_all add: take_Suc_conv_app_nth)

lemma scan_all: "scan (length cs) cs s = foldr scan_body cs s"
  by (simp add: scan_foldr)

lemma reason_scan_body:
  "reason (scan_body c s) = (if sets_reason c then container_reason c else reason s)"
  by (auto simp: scan_body_def sets_reason_def container_reason_def terminated_text_def Let_def
           split: option.splits)

lemma ready_scan_body:
  "readyContainers (scan_body c s) = readyContainers s + (if counts_ready c then 1 else 0)"
  by (auto simp: scan_body_def sets_reason_def counts_ready_def Let_def split: option.splits)

lemma reason_foldr:
  "reason (foldr scan_body cs s) =
     (case find sets_reason cs of None \<Rightarrow> reason s | Some c \<Rightarrow> container_reason c)"
  by (induction cs) (simp_all add: reason_scan_body)

lemma ready_foldr:
  "readyContainers (foldr scan_body cs s) =
     readyContainers s + int (length (filter counts_ready cs))"
  by (induction cs) (simp_all add: ready_scan_body)

subsection \<open>The fields of the result\<close>

lemma sint_int32_of_int:
  "- (2 ^ 31) \<le> n \<Longrightarrow> n < 2 ^ 31 \<Longrightarrow> sint (int32_of_int n) = n"
  by (simp add: int32_of_int_def sint_sbintrunc' signed_take_bit_int_eq_self)

lemma ReadyContainers_eq:
  "ReadyContainers (ComputePodStatus pod) =
     int32_of_int (int (length (filter counts_ready (ContainerStatuses (Status pod)))))"
  by (simp add: ComputePodStatus_def Let_def scan_all ready_foldr)

lemma TotalContainers_eq:
  "TotalContainers (ComputePodStatus pod) = int32_of_int (int (length (Containers (Spec pod))))"
  by (simp add: ComputePodStatus_def Let_def len_def)

lemma Ready_eq:
  "Ready (ComputePodStatus pod) \<longleftrightarrow>
     DeletionTimestamp pod = None \<and>
     length (filter counts_ready (ContainerStatuses (Status pod))) = length (Containers (Spec pod))"
  by (simp add: ComputePodStatus_def Let_def scan_all ready_foldr len_def)

lemma Reason_eq:
  "Reason (ComputePodStatus pod) =
     (if DeletionTimestamp pod \<noteq> None then
        (if status_Reason (Status pod) = NodeUnreachablePodReason then ''Unknown''
         else ''Terminating'')
      else case find sets_reason (ContainerStatuses (Status pod)) of
             None \<Rightarrow> (if status_Reason (Status pod) \<noteq> '''' then status_Reason (Status pod)
                       else Phase (Status pod))
           | Some c \<Rightarrow> container_reason c)"
  by (simp add: ComputePodStatus_def Let_def scan_all reason_foldr split: option.splits)

text \<open>
  The end-to-end example of the specification: two containers, one waiting with reason
  \<open>ImagePullBackOff\<close> and one running and ready.
\<close>

lemma end_to_end_example:
  "ComputePodStatus
     (mk_pod two_containers
        [waiting_status ''proxy'' ''ImagePullBackOff'' 0, running_status ''sidecar'' 0] None '''')
   = \<lparr>Name = ''lb-proxy-0'', Ready = False, NodeName = ''node-1'', ReadyContainers = 1,
      TotalContainers = 2, Reason = ''ImagePullBackOff''\<rparr>"
  by (simp add: compute_defs pod_example_defs)

lemma exit_code_example:
  "Reason (ComputePodStatus
     (mk_pod two_containers
        [running_status ''proxy'' 0, terminated_status ''sidecar'' 0 (- 1)] None ''''))
   = ''ExitCode:-1''"
  by (simp add: compute_defs pod_example_defs fmt_d_def digit_char_def)

subsection \<open>C1: ready containers against declared containers\<close>

text \<open>
  C1, as stated, fails: \<open>TotalContainers\<close> counts \<^verbatim>\<open>pod.Spec.Containers\<close> and
  \<open>ReadyContainers\<close> is counted over \<^verbatim>\<open>pod.Status.ContainerStatuses\<close>, two lists that the
  code never relates. A pod that declares no container and reports one running, ready
  container status gets \<open>ReadyContainers = 1\<close> and \<open>TotalContainers = 0\<close>.
\<close>

theorem ready_le_total_counterexample:
  "\<not> sint (ReadyContainers (ComputePodStatus (mk_pod [] [running_status ''proxy'' 0] None '''')))
     \<le> sint (TotalContainers (ComputePodStatus (mk_pod [] [running_status ''proxy'' 0] None '''')))"
  by (simp add: compute_defs pod_example_defs)

text \<open>
  C1, amended: for every pod that has at most as many container statuses as declared
  containers, and fewer than \<open>2 ^ 31\<close> declared containers (so that the conversions to
  \<^verbatim>\<open>int32\<close> are exact), the result has \<open>ReadyContainers \<le> TotalContainers\<close>.
\<close>

theorem ready_le_total:
  assumes "length (ContainerStatuses (Status pod)) \<le> length (Containers (Spec pod))"
    and "length (Containers (Spec pod)) < 2 ^ 31"
  shows "sint (ReadyContainers (ComputePodStatus pod))
           \<le> sint (TotalContainers (ComputePodStatus pod))"
proof -
  let ?r = "length (filter counts_ready (ContainerStatuses (Status pod)))"
  let ?t = "length (Containers (Spec pod))"
  have "?r \<le> length (ContainerStatuses (Status pod))" by simp
  with assms have rt: "?r \<le> ?t" by linarith
  from assms(2) have t: "int ?t < 2 ^ 31"
    by (metis of_nat_less_iff of_nat_numeral of_nat_power)
  with rt have r: "int ?r < 2 ^ 31" by linarith
  have "sint (ReadyContainers (ComputePodStatus pod)) = int ?r"
    unfolding ReadyContainers_eq using r by (intro sint_int32_of_int) simp_all
  moreover have "sint (TotalContainers (ComputePodStatus pod)) = int ?t"
    unfolding TotalContainers_eq using t by (intro sint_int32_of_int) simp_all
  ultimately show ?thesis using rt by simp
qed

theorem ready_le_total_witness:
  "length (ContainerStatuses (Status (mk_pod two_containers
      [waiting_status ''proxy'' ''ImagePullBackOff'' 0, running_status ''sidecar'' 0] None '''')))
     \<le> length (Containers (Spec (mk_pod two_containers
      [waiting_status ''proxy'' ''ImagePullBackOff'' 0, running_status ''sidecar'' 0] None '''')))
   \<and> length (Containers (Spec (mk_pod two_containers
      [waiting_status ''proxy'' ''ImagePullBackOff'' 0, running_status ''sidecar'' 0] None '''')))
     < 2 ^ 31
   \<and> sint (ReadyContainers (ComputePodStatus (mk_pod two_containers
      [waiting_status ''proxy'' ''ImagePullBackOff'' 0, running_status ''sidecar'' 0] None '''')))
     \<le> sint (TotalContainers (ComputePodStatus (mk_pod two_containers
      [waiting_status ''proxy'' ''ImagePullBackOff'' 0, running_status ''sidecar'' 0] None '''')))"
proof -
  let ?pod = "mk_pod two_containers
      [waiting_status ''proxy'' ''ImagePullBackOff'' 0, running_status ''sidecar'' 0] None ''''"
  have h1: "length (ContainerStatuses (Status ?pod)) \<le> length (Containers (Spec ?pod))"
    by (simp add: pod_example_defs)
  have h2: "length (Containers (Spec ?pod)) < 2 ^ 31"
    by (simp add: pod_example_defs)
  from ready_le_total [OF h1 h2] h1 h2 show ?thesis by blast
qed

subsection \<open>C2: the order of the scan\<close>

text \<open>
  C2, as stated, fails: the loop runs from the last index down to 0, so the status that
  is visited last is the first one of the observed list. With two waiting statuses,
  \<open>ImagePullBackOff\<close> first and \<open>CrashLoopBackOff\<close> second, the result carries
  \<open>ImagePullBackOff\<close>, not the reason of the later status.
\<close>

theorem scan_order_counterexample:
  "sets_reason (waiting_status ''proxy'' ''ImagePullBackOff'' 0)
   \<and> sets_reason (waiting_status ''sidecar'' ''CrashLoopBackOff'' 0)
   \<and> container_reason (waiting_status ''sidecar'' ''CrashLoopBackOff'' 0) = ''CrashLoopBackOff''
   \<and> Reason (ComputePodStatus (mk_pod two_containers
        [waiting_status ''proxy'' ''ImagePullBackOff'' 0,
         waiting_status ''sidecar'' ''CrashLoopBackOff'' 0] None ''''))
     = ''ImagePullBackOff''"
  by (simp add: compute_defs pod_example_defs sets_reason_def container_reason_def)

text \<open>
  C2, amended: the scan visits the container statuses in reverse observed order (it is
  the fold of the loop body over the reversed list), and for a pod without a deletion
  timestamp the final \<open>Reason\<close> is the one set by the first status of the observed list
  that sets a reason (the last such status in scan order); when no status sets a reason
  it is the pod's status reason, or its phase when that is empty.
\<close>

theorem scan_order_first_observed_wins:
  assumes "DeletionTimestamp pod = None"
  shows "scan (length cs) cs s = fold scan_body (rev cs) s
       \<and> Reason (ComputePodStatus pod) =
           (case find sets_reason (ContainerStatuses (Status pod)) of
              Some c \<Rightarrow> container_reason c
            | None \<Rightarrow> (if status_Reason (Status pod) \<noteq> '''' then status_Reason (Status pod)
                        else Phase (Status pod)))"
  using assms by (simp add: scan_all foldr_conv_fold Reason_eq split: option.splits)

theorem scan_order_first_observed_wins_witness:
  "DeletionTimestamp (mk_pod two_containers
      [waiting_status ''proxy'' ''ImagePullBackOff'' 0,
       waiting_status ''sidecar'' ''CrashLoopBackOff'' 0] None '''') = None
   \<and> find sets_reason
       [waiting_status ''proxy'' ''ImagePullBackOff'' 0,
        waiting_status ''sidecar'' ''CrashLoopBackOff'' 0]
     = Some (waiting_status ''proxy'' ''ImagePullBackOff'' 0)
   \<and> Reason (ComputePodStatus (mk_pod two_containers
      [waiting_status ''proxy'' ''ImagePullBackOff'' 0,
       waiting_status ''sidecar'' ''CrashLoopBackOff'' 0] None ''''))
     = ''ImagePullBackOff''"
proof -
  let ?cs = "[waiting_status ''proxy'' ''ImagePullBackOff'' 0,
              waiting_status ''sidecar'' ''CrashLoopBackOff'' 0]"
  let ?pod = "mk_pod two_containers ?cs None ''''"
  have h: "DeletionTimestamp ?pod = None"
    by (simp add: mk_pod_def)
  have f: "find sets_reason ?cs = Some (waiting_status ''proxy'' ''ImagePullBackOff'' 0)"
    by (simp add: sets_reason_def waiting_status_def)
  have c: "container_reason (waiting_status ''proxy'' ''ImagePullBackOff'' 0) = ''ImagePullBackOff''"
    by (simp add: container_reason_def waiting_status_def)
  have "ContainerStatuses (Status ?pod) = ?cs"
    by (simp add: mk_pod_def)
  with scan_order_first_observed_wins [OF h, of ?cs "\<lparr>restarts = 0, readyContainers = 0, reason = []\<rparr>"] f c
  have "Reason (ComputePodStatus ?pod) = ''ImagePullBackOff''" by simp
  with h f show ?thesis by blast
qed

subsection \<open>C3: a pod without declared containers\<close>

text \<open>
  C3, as stated, fails: a pod that declares no container is reported not ready when it
  carries a deletion timestamp (the override of C4), and also when one of its container
  statuses is counted ready, since then \<open>readyContainers\<close> is 1 and \<open>totalContainers\<close> 0.
\<close>

theorem zero_containers_counterexample:
  "Containers (Spec (mk_pod [] [] (Some 1500000000) '''')) = []
   \<and> Ready (ComputePodStatus (mk_pod [] [] (Some 1500000000) '''')) = False
   \<and> Containers (Spec (mk_pod [] [running_status ''proxy'' 0] None '''')) = []
   \<and> Ready (ComputePodStatus (mk_pod [] [running_status ''proxy'' 0] None '''')) = False"
  by (simp add: compute_defs pod_example_defs)

text \<open>
  C3, amended: for every pod whose spec declares zero containers, the result has
  \<open>Ready = true\<close> exactly when the pod carries no deletion timestamp and none of its
  container statuses is counted ready; in particular when it has no deletion timestamp
  and no container status.
\<close>

theorem zero_containers_ready:
  assumes "Containers (Spec pod) = []"
  shows "Ready (ComputePodStatus pod) \<longleftrightarrow>
           DeletionTimestamp pod = None \<and>
           filter counts_ready (ContainerStatuses (Status pod)) = []"
  using assms by (simp add: Ready_eq)

theorem zero_containers_ready_witness:
  "Containers (Spec (mk_pod [] [] None '''')) = []
   \<and> DeletionTimestamp (mk_pod [] [] None '''') = None
   \<and> filter counts_ready (ContainerStatuses (Status (mk_pod [] [] None ''''))) = []
   \<and> Ready (ComputePodStatus (mk_pod [] [] None ''''))"
proof -
  have h: "Containers (Spec (mk_pod [] [] None '''')) = []"
    by (simp add: mk_pod_def)
  have d: "DeletionTimestamp (mk_pod [] [] None '''') = None"
    by (simp add: mk_pod_def)
  have f: "filter counts_ready (ContainerStatuses (Status (mk_pod [] [] None ''''))) = []"
    by (simp add: mk_pod_def)
  from zero_containers_ready [OF h] d f
  have "Ready (ComputePodStatus (mk_pod [] [] None ''''))" by simp
  with h d f show ?thesis by blast
qed

subsection \<open>C4: the deletion override\<close>

text \<open>
  C4. A pod that carries a deletion timestamp is reported not ready whatever its
  containers say, and its reason is \<open>''Unknown''\<close> exactly when the pod's own status
  reason is \<open>NodeUnreachablePodReason\<close>, that is \<open>''NodeLost''\<close>, and \<open>''Terminating''\<close>
  otherwise: the override wins over the phase, the status reason and the container scan.
\<close>

theorem deletion_override:
  assumes "DeletionTimestamp pod \<noteq> None"
  shows "Ready (ComputePodStatus pod) = False
       \<and> (Reason (ComputePodStatus pod) = ''Unknown'' \<longleftrightarrow>
            status_Reason (Status pod) = ''NodeLost'')
       \<and> Reason (ComputePodStatus pod) =
           (if status_Reason (Status pod) = NodeUnreachablePodReason then ''Unknown''
            else ''Terminating'')"
  using assms by (simp add: ComputePodStatus_def Let_def NodeUnreachablePodReason_def)

theorem deletion_override_witness:
  "DeletionTimestamp (mk_pod two_containers
      [running_status ''proxy'' 0, running_status ''sidecar'' 0] (Some 1500000000) ''NodeLost'')
     \<noteq> None
   \<and> Ready (ComputePodStatus (mk_pod two_containers
      [running_status ''proxy'' 0, running_status ''sidecar'' 0] (Some 1500000000) ''NodeLost''))
     = False
   \<and> Reason (ComputePodStatus (mk_pod two_containers
      [running_status ''proxy'' 0, running_status ''sidecar'' 0] (Some 1500000000) ''NodeLost''))
     = ''Unknown''
   \<and> DeletionTimestamp (mk_pod two_containers
      [waiting_status ''proxy'' ''ImagePullBackOff'' 0] (Some 1500000000) ''Evicted'') \<noteq> None
   \<and> Reason (ComputePodStatus (mk_pod two_containers
      [waiting_status ''proxy'' ''ImagePullBackOff'' 0] (Some 1500000000) ''Evicted''))
     = ''Terminating''"
proof -
  let ?p = "mk_pod two_containers
      [running_status ''proxy'' 0, running_status ''sidecar'' 0] (Some 1500000000) ''NodeLost''"
  let ?q = "mk_pod two_containers
      [waiting_status ''proxy'' ''ImagePullBackOff'' 0] (Some 1500000000) ''Evicted''"
  have hp: "DeletionTimestamp ?p \<noteq> None" and hq: "DeletionTimestamp ?q \<noteq> None"
    by (simp_all add: mk_pod_def)
  have sp: "status_Reason (Status ?p) = ''NodeLost''" and sq: "status_Reason (Status ?q) = ''Evicted''"
    by (simp_all add: mk_pod_def)
  from deletion_override [OF hp] sp
  have 1: "Ready (ComputePodStatus ?p) = False" "Reason (ComputePodStatus ?p) = ''Unknown''"
    by simp_all
  from deletion_override [OF hq] sq
  have 2: "Reason (ComputePodStatus ?q) = ''Terminating''"
    by (simp add: NodeUnreachablePodReason_def)
  from hp hq 1 2 show ?thesis by blast
qed

subsection \<open>C10: the restart counts do not reach the result\<close>

lemma same_sets_reason: "same_but_RestartCount c c' \<Longrightarrow> sets_reason c = sets_reason c'"
  by (simp add: same_but_RestartCount_def sets_reason_def)

lemma same_container_reason:
  "same_but_RestartCount c c' \<Longrightarrow> container_reason c = container_reason c'"
  by (simp add: same_but_RestartCount_def container_reason_def)

lemma same_counts_ready: "same_but_RestartCount c c' \<Longrightarrow> counts_ready c = counts_ready c'"
  by (simp add: same_but_RestartCount_def sets_reason_def counts_ready_def)

lemma find_same:
  "list_all2 same_but_RestartCount cs cs' \<Longrightarrow>
     map_option container_reason (find sets_reason cs) =
     map_option container_reason (find sets_reason cs')"
  by (induction rule: list_all2_induct)
     (simp_all add: same_sets_reason same_container_reason)

lemma filter_same:
  "list_all2 same_but_RestartCount cs cs' \<Longrightarrow>
     length (filter counts_ready cs) = length (filter counts_ready cs')"
  by (induction rule: list_all2_induct) (simp_all add: same_counts_ready)

lemma PodStatus_eqI:
  "Name x = Name y \<Longrightarrow> Ready x = Ready y \<Longrightarrow> NodeName x = NodeName y \<Longrightarrow>
   ReadyContainers x = ReadyContainers y \<Longrightarrow> TotalContainers x = TotalContainers y \<Longrightarrow>
   Reason x = Reason y \<Longrightarrow> x = (y::PodStatus)"
  by simp

text \<open>
  C10. Two pods that differ only in the \<open>RestartCount\<close> values of their container
  statuses get the same result: the sum of the restart counts that the scan accumulates
  reaches no field of the output.
\<close>

theorem restarts_do_not_matter:
  assumes "differ_only_in_RestartCount p p'"
  shows "ComputePodStatus p = ComputePodStatus p'"
proof -
  from assms have l: "list_all2 same_but_RestartCount
       (ContainerStatuses (Status p)) (ContainerStatuses (Status p'))"
    and e: "pod_Name p = pod_Name p'" "DeletionTimestamp p = DeletionTimestamp p'"
     "Spec p = Spec p'" "Phase (Status p) = Phase (Status p')"
     "status_Reason (Status p) = status_Reason (Status p')"
    by (simp_all add: differ_only_in_RestartCount_def)
  note f = find_same [OF l] and g = filter_same [OF l]
  show ?thesis
  proof (rule PodStatus_eqI)
    show "Name (ComputePodStatus p) = Name (ComputePodStatus p')"
      using e by (simp add: ComputePodStatus_def Let_def)
    show "NodeName (ComputePodStatus p) = NodeName (ComputePodStatus p')"
      using e by (simp add: ComputePodStatus_def Let_def)
    show "Ready (ComputePodStatus p) = Ready (ComputePodStatus p')"
      using e g by (simp add: Ready_eq)
    show "ReadyContainers (ComputePodStatus p) = ReadyContainers (ComputePodStatus p')"
      using g by (simp add: ReadyContainers_eq)
    show "TotalContainers (ComputePodStatus p) = TotalContainers (ComputePodStatus p')"
      using e by (simp add: TotalContainers_eq)
    show "Reason (ComputePodStatus p) = Reason (ComputePodStatus p')"
      using e f unfolding Reason_eq
      by (cases "find sets_reason (ContainerStatuses (Status p))";
          cases "find sets_reason (ContainerStatuses (Status p'))") simp_all
  qed
qed

theorem restarts_do_not_matter_witness:
  "differ_only_in_RestartCount
     (mk_pod two_containers
        [waiting_status ''proxy'' ''CrashLoopBackOff'' 0, running_status ''sidecar'' 0] None '''')
     (mk_pod two_containers
        [waiting_status ''proxy'' ''CrashLoopBackOff'' 41, running_status ''sidecar'' 7] None '''')
   \<and> ComputePodStatus (mk_pod two_containers
        [waiting_status ''proxy'' ''CrashLoopBackOff'' 0, running_status ''sidecar'' 0] None '''')
     = ComputePodStatus (mk_pod two_containers
        [waiting_status ''proxy'' ''CrashLoopBackOff'' 41, running_status ''sidecar'' 7] None '''')
   \<and> mk_pod two_containers
        [waiting_status ''proxy'' ''CrashLoopBackOff'' 0, running_status ''sidecar'' 0] None ''''
     \<noteq> mk_pod two_containers
        [waiting_status ''proxy'' ''CrashLoopBackOff'' 41, running_status ''sidecar'' 7] None ''''"
proof -
  let ?p = "mk_pod two_containers
        [waiting_status ''proxy'' ''CrashLoopBackOff'' 0, running_status ''sidecar'' 0] None ''''"
  let ?p' = "mk_pod two_containers
        [waiting_status ''proxy'' ''CrashLoopBackOff'' 41, running_status ''sidecar'' 7] None ''''"
  have h: "differ_only_in_RestartCount ?p ?p'"
    by (simp add: differ_only_in_RestartCount_def same_but_RestartCount_def pod_example_defs)
  have n: "?p \<noteq> ?p'"
    by (simp add: pod_example_defs)
  from restarts_do_not_matter [OF h] h n show ?thesis by blast
qed

section \<open>Properties of the comparators\<close>

lemmas aggregate_example_defs = worker_def mk_statuses_def mk_proxy_def mk_ipvsdr_def

lemmas equal_defs =
  PodStatusesEqual_def ProxyStatusEqual_def IpvsdrProviderStatusEqual_def DeepEqual_def
  zero_PodStatuses_def Let_def

subsection \<open>The two loops\<close>

lemma all_matched_iff: "all_matched xs ys \<longleftrightarrow> (\<forall>x\<in>set xs. match_by_name x ys)"
  by (induction xs) simp_all

lemma match_by_name_mem: "match_by_name x ys \<Longrightarrow> x \<in> set ys"
  by (induction ys) (auto simp: DeepEqual_def split: if_splits)

lemma match_by_name_unique:
  "match_by_name x ys \<Longrightarrow> match_by_name y ys \<Longrightarrow> Name y = Name x \<Longrightarrow> y = x"
  by (induction ys) (auto simp: DeepEqual_def split: if_splits)

lemma match_by_name_distinct:
  "distinct (map Name ys) \<Longrightarrow> match_by_name x ys \<longleftrightarrow> x \<in> set ys"
proof (induction ys)
  case Nil
  show ?case by simp
next
  case (Cons y ys)
  show ?case
  proof (cases "Name x = Name y")
    case True
    with Cons.prems have "x \<notin> set ys" by (auto simp: image_iff)
    with True show ?thesis by (auto simp: DeepEqual_def)
  next
    case False
    with Cons show ?thesis by auto
  qed
qed

lemma all_matched_distinct:
  "distinct (map Name ys) \<Longrightarrow> all_matched xs ys \<longleftrightarrow> set xs \<subseteq> set ys"
  by (auto simp: all_matched_iff match_by_name_distinct)

lemma PodStatusesEqual_iff:
  "PodStatusesEqual a b \<longleftrightarrow>
     length (Statuses a) = length (Statuses b) \<and> counters a = counters b \<and>
     all_matched (Statuses a) (Statuses b)"
  by (cases a; cases b) (auto simp: PodStatusesEqual_def DeepEqual_def Let_def)

lemma ProxyStatusEqual_iff:
  "ProxyStatusEqual p q \<longleftrightarrow>
     PodStatusesEqual (proxy_PodStatuses p) (proxy_PodStatuses q) \<and>
     proxy_fields p = proxy_fields q"
  by (cases p; cases q) (auto simp: ProxyStatusEqual_def DeepEqual_def)

lemma IpvsdrProviderStatusEqual_iff:
  "IpvsdrProviderStatusEqual p q \<longleftrightarrow>
     PodStatusesEqual (ipvsdr_PodStatuses p) (ipvsdr_PodStatuses q) \<and>
     ipvsdr_fields p = ipvsdr_fields q"
  by (cases p; cases q) (auto simp: IpvsdrProviderStatusEqual_def DeepEqual_def)

subsection \<open>C5: the order of the workers\<close>

text \<open>
  C5. For aggregates \<open>a\<close> and \<open>b\<close> in which no two workers of one aggregate share a
  \<open>Name\<close>, replacing the worker list of \<open>a\<close> by a permutation of it, or that of \<open>b\<close> by a
  permutation of it, does not change the result of \<open>PodStatusesEqual\<close>, nor that of
  \<open>ProxyStatusEqual\<close> and \<open>IpvsdrProviderStatusEqual\<close> on aggregates that embed them.
  (Taking \<open>ys = Statuses b\<close> permutes \<open>a\<close> alone against the fixed \<open>b\<close>, and conversely.)
\<close>

theorem PodStatusesEqual_order_insensitive:
  fixes a b :: "('c::zero) PodStatuses"
  assumes "distinct (map Name (Statuses a))" and "distinct (map Name (Statuses b))"
    and "mset xs = mset (Statuses a)" and "mset ys = mset (Statuses b)"
  shows "PodStatusesEqual (a\<lparr>Statuses := xs\<rparr>) (b\<lparr>Statuses := ys\<rparr>) = PodStatusesEqual a b
       \<and> ProxyStatusEqual
           \<lparr>proxy_PodStatuses = a\<lparr>Statuses := xs\<rparr>, proxy_fields = f\<rparr>
           \<lparr>proxy_PodStatuses = b\<lparr>Statuses := ys\<rparr>, proxy_fields = g\<rparr>
         = ProxyStatusEqual
           \<lparr>proxy_PodStatuses = a, proxy_fields = f\<rparr> \<lparr>proxy_PodStatuses = b, proxy_fields = g\<rparr>
       \<and> IpvsdrProviderStatusEqual
           \<lparr>ipvsdr_PodStatuses = a\<lparr>Statuses := xs\<rparr>, ipvsdr_fields = f'\<rparr>
           \<lparr>ipvsdr_PodStatuses = b\<lparr>Statuses := ys\<rparr>, ipvsdr_fields = g'\<rparr>
         = IpvsdrProviderStatusEqual
           \<lparr>ipvsdr_PodStatuses = a, ipvsdr_fields = f'\<rparr>
           \<lparr>ipvsdr_PodStatuses = b, ipvsdr_fields = g'\<rparr>"
proof -
  have "mset (map Name ys) = mset (map Name (Statuses b))"
    using assms(4) by simp
  then have dy: "distinct (map Name ys)"
    using assms(2) by (metis mset_eq_imp_distinct_iff)
  have s: "set xs = set (Statuses a)" "set ys = set (Statuses b)"
    using assms(3,4) by (auto dest: mset_eq_setD)
  have l: "length xs = length (Statuses a)" "length ys = length (Statuses b)"
    using assms(3,4) by (auto dest: mset_eq_length)
  have "PodStatusesEqual (a\<lparr>Statuses := xs\<rparr>) (b\<lparr>Statuses := ys\<rparr>) = PodStatusesEqual a b"
    by (simp add: PodStatusesEqual_iff all_matched_distinct dy assms(2) s l)
  then show ?thesis
    by (simp add: ProxyStatusEqual_iff IpvsdrProviderStatusEqual_iff)
qed

theorem PodStatusesEqual_order_insensitive_witness:
  "distinct (map Name (Statuses (mk_statuses [worker ''lb-0'' True, worker ''lb-1'' False])))
   \<and> distinct (map Name (Statuses (mk_statuses [worker ''lb-1'' False, worker ''lb-0'' True])))
   \<and> mset [worker ''lb-1'' False, worker ''lb-0'' True]
       = mset (Statuses (mk_statuses [worker ''lb-0'' True, worker ''lb-1'' False]))
   \<and> mset [worker ''lb-0'' True, worker ''lb-1'' False]
       = mset (Statuses (mk_statuses [worker ''lb-1'' False, worker ''lb-0'' True]))
   \<and> PodStatusesEqual
       (mk_statuses [worker ''lb-0'' True, worker ''lb-1'' False])
       (mk_statuses [worker ''lb-1'' False, worker ''lb-0'' True])
   \<and> PodStatusesEqual
       ((mk_statuses [worker ''lb-0'' True, worker ''lb-1'' False])
          \<lparr>Statuses := [worker ''lb-1'' False, worker ''lb-0'' True]\<rparr>)
       ((mk_statuses [worker ''lb-1'' False, worker ''lb-0'' True])
          \<lparr>Statuses := [worker ''lb-0'' True, worker ''lb-1'' False]\<rparr>)"
proof -
  let ?a = "mk_statuses [worker ''lb-0'' True, worker ''lb-1'' False]"
  let ?b = "mk_statuses [worker ''lb-1'' False, worker ''lb-0'' True]"
  let ?xs = "[worker ''lb-1'' False, worker ''lb-0'' True]"
  let ?ys = "[worker ''lb-0'' True, worker ''lb-1'' False]"
  have da: "distinct (map Name (Statuses ?a))" and db: "distinct (map Name (Statuses ?b))"
    by (simp_all add: aggregate_example_defs)
  have ma: "mset ?xs = mset (Statuses ?a)" and mb: "mset ?ys = mset (Statuses ?b)"
    by (simp_all add: mk_statuses_def)
  have e: "PodStatusesEqual ?a ?b"
    by (simp add: equal_defs aggregate_example_defs)
  from PodStatusesEqual_order_insensitive
         [OF da db ma mb, of "''lb-proxy''" "''lb-proxy''" "''10.0.0.1''" "''10.0.0.1''"] e
  have "PodStatusesEqual (?a\<lparr>Statuses := ?xs\<rparr>) (?b\<lparr>Statuses := ?ys\<rparr>)" by blast
  with da db ma mb e show ?thesis by blast
qed

subsection \<open>C6: a change of one worker\<close>

lemma changed_left:
  assumes "PodStatusesEqual a b" and "i < length (Statuses a)"
    and "Name w' = Name (Statuses a ! i)" and "w' \<noteq> Statuses a ! i"
  shows "\<not> PodStatusesEqual (a\<lparr>Statuses := (Statuses a)[i := w']\<rparr>) b"
proof
  assume "PodStatusesEqual (a\<lparr>Statuses := (Statuses a)[i := w']\<rparr>) b"
  then have "all_matched ((Statuses a)[i := w']) (Statuses b)"
    by (simp add: PodStatusesEqual_iff)
  moreover have "w' \<in> set ((Statuses a)[i := w'])"
    using assms(2) by (simp add: set_update_memI)
  ultimately have 1: "match_by_name w' (Statuses b)"
    by (simp add: all_matched_iff)
  have 2: "match_by_name (Statuses a ! i) (Statuses b)"
    using assms(1,2) by (simp add: PodStatusesEqual_iff all_matched_iff)
  from match_by_name_unique [OF 2 1 assms(3)] assms(4) show False by simp
qed

lemma equal_distinct_right:
  assumes "PodStatusesEqual a b" and "distinct (map Name (Statuses a))"
  shows "distinct (map Name (Statuses b))" and "set (Statuses a) = set (Statuses b)"
proof -
  from assms(1) have len: "length (Statuses a) = length (Statuses b)"
    and m: "\<forall>x\<in>set (Statuses a). match_by_name x (Statuses b)"
    by (simp_all add: PodStatusesEqual_iff all_matched_iff)
  from m have sub: "set (Statuses a) \<subseteq> set (Statuses b)"
    by (auto dest: match_by_name_mem)
  then have nsub: "set (map Name (Statuses a)) \<subseteq> set (map Name (Statuses b))"
    by auto
  have "card (set (map Name (Statuses a))) = length (Statuses b)"
    using assms(2) len by (simp add: distinct_card del: set_map)
  moreover have "card (set (map Name (Statuses a))) \<le> card (set (map Name (Statuses b)))"
    using nsub by (intro card_mono) simp_all
  moreover have "card (set (map Name (Statuses b))) \<le> length (Statuses b)"
    by (metis card_length length_map)
  ultimately have "card (set (map Name (Statuses b))) = length (map Name (Statuses b))"
    by simp
  then show db: "distinct (map Name (Statuses b))"
    by (rule card_distinct)
  have da: "distinct (Statuses a)"
    using assms(2) by (rule distinct_map [THEN iffD1, THEN conjunct1])
  have "distinct (Statuses b)"
    using db by (rule distinct_map [THEN iffD1, THEN conjunct1])
  then have "card (set (Statuses b)) = card (set (Statuses a))"
    using da len by (simp add: distinct_card)
  with sub show "set (Statuses a) = set (Statuses b)"
    by (simp add: card_subset_eq)
qed

lemma changed_right:
  assumes "PodStatusesEqual a b" and "distinct (map Name (Statuses a))"
    and "j < length (Statuses b)"
    and "Name w' = Name (Statuses b ! j)" and "w' \<noteq> Statuses b ! j"
  shows "\<not> PodStatusesEqual a (b\<lparr>Statuses := (Statuses b)[j := w']\<rparr>)"
proof
  let ?bs = "Statuses b"
  assume "PodStatusesEqual a (b\<lparr>Statuses := ?bs[j := w']\<rparr>)"
  then have am: "all_matched (Statuses a) (?bs[j := w'])"
    by (simp add: PodStatusesEqual_iff)
  note db = equal_distinct_right(1) [OF assms(1,2)]
    and se = equal_distinct_right(2) [OF assms(1,2)]
  have "map Name (?bs[j := w']) = map Name ?bs"
    using assms(3,4) by (simp add: map_update list_update_same_conv)
  with db have db': "distinct (map Name (?bs[j := w']))" by simp
  have "?bs ! j \<in> set (Statuses a)" using assms(3) se by simp
  with am db' have "?bs ! j \<in> set (?bs[j := w'])"
    by (auto simp: all_matched_distinct)
  then obtain k where k: "k < length ?bs" "?bs[j := w'] ! k = ?bs ! j"
    by (auto simp: in_set_conv_nth)
  show False
  proof (cases "k = j")
    case True
    with k assms(5) show False by simp
  next
    case False
    with k have "?bs ! k = ?bs ! j" by simp
    moreover have "distinct ?bs"
      using db by (rule distinct_map [THEN iffD1, THEN conjunct1])
    ultimately show False using False k(1) assms(3) by (simp add: nth_eq_iff_index_eq)
  qed
qed

lemma Name_change_fields: "Name (change_fields r n rs w) = Name w"
  by (simp add: change_fields_def)

text \<open>
  C6, as stated, fails: the comparator only asks that every worker of \<open>a\<close> finds an
  equal worker of the same name in \<open>b\<close>. When \<open>a\<close> lists the worker \<open>lb-0\<close> twice and
  \<open>b\<close> lists \<open>lb-0\<close> and \<open>lb-1\<close>, the two are judged equal, and they still are after
  \<open>Ready\<close> of \<open>lb-1\<close> in \<open>b\<close> has changed.
\<close>

theorem worker_change_counterexample:
  "PodStatusesEqual (mk_statuses [worker ''lb-0'' True, worker ''lb-0'' True])
      (mk_statuses [worker ''lb-0'' True, worker ''lb-1'' True])
   \<and> change_fields False ''node-1'' ''Running'' (worker ''lb-1'' True) \<noteq> worker ''lb-1'' True
   \<and> PodStatusesEqual (mk_statuses [worker ''lb-0'' True, worker ''lb-0'' True])
      (change_worker 1 False ''node-1'' ''Running''
         (mk_statuses [worker ''lb-0'' True, worker ''lb-1'' True]))
   \<and> ProxyStatusEqual (mk_proxy [worker ''lb-0'' True, worker ''lb-0'' True])
      (mk_proxy [worker ''lb-0'' True, worker ''lb-1'' True])
   \<and> ProxyStatusEqual (mk_proxy [worker ''lb-0'' True, worker ''lb-0'' True])
      (proxy_change_worker 1 False ''node-1'' ''Running''
         (mk_proxy [worker ''lb-0'' True, worker ''lb-1'' True]))"
  by (simp add: equal_defs aggregate_example_defs change_fields_def change_worker_def
        proxy_change_worker_def)

text \<open>
  C6, amended: for aggregates \<open>p\<close> and \<open>q\<close> that the comparator judges equal and where
  no two workers of \<open>p\<close> share a \<open>Name\<close> (then none of \<open>q\<close> do either), giving the worker
  at one position of \<open>p\<close>, or of \<open>q\<close>, new values of \<open>Ready\<close>, \<open>NodeName\<close> and \<open>Reason\<close>
  that change it, with everything else fixed, makes the comparator return false; so does
  \<open>PodStatusesEqual\<close> on the worker sets.
\<close>

theorem worker_change_detected:
  fixes p q :: "('c::zero, 's) ProxyStatus"
  assumes "ProxyStatusEqual p q"
    and "distinct (map Name (Statuses (proxy_PodStatuses p)))"
  shows "(i < length (Statuses (proxy_PodStatuses p)) \<and>
          change_fields r n rs (Statuses (proxy_PodStatuses p) ! i)
            \<noteq> Statuses (proxy_PodStatuses p) ! i \<longrightarrow>
            \<not> ProxyStatusEqual (proxy_change_worker i r n rs p) q \<and>
            \<not> PodStatusesEqual (change_worker i r n rs (proxy_PodStatuses p)) (proxy_PodStatuses q))
       \<and> (i < length (Statuses (proxy_PodStatuses q)) \<and>
          change_fields r n rs (Statuses (proxy_PodStatuses q) ! i)
            \<noteq> Statuses (proxy_PodStatuses q) ! i \<longrightarrow>
            \<not> ProxyStatusEqual p (proxy_change_worker i r n rs q) \<and>
            \<not> PodStatusesEqual (proxy_PodStatuses p) (change_worker i r n rs (proxy_PodStatuses q)))"
proof -
  let ?a = "proxy_PodStatuses p" and ?b = "proxy_PodStatuses q"
  from assms(1) have eq: "PodStatusesEqual ?a ?b"
    by (simp add: ProxyStatusEqual_iff)
  have l: "\<not> PodStatusesEqual (change_worker i r n rs ?a) ?b"
    if "i < length (Statuses ?a)" "change_fields r n rs (Statuses ?a ! i) \<noteq> Statuses ?a ! i"
    unfolding change_worker_def
    using eq that by (intro changed_left) (simp_all add: Name_change_fields)
  have r: "\<not> PodStatusesEqual ?a (change_worker i r n rs ?b)"
    if "i < length (Statuses ?b)" "change_fields r n rs (Statuses ?b ! i) \<noteq> Statuses ?b ! i"
    unfolding change_worker_def
    using eq assms(2) that by (intro changed_right) (simp_all add: Name_change_fields)
  from l r show ?thesis
    by (simp add: ProxyStatusEqual_iff proxy_change_worker_def)
qed

theorem worker_change_detected_witness:
  "ProxyStatusEqual (mk_proxy [worker ''lb-0'' True, worker ''lb-1'' True])
     (mk_proxy [worker ''lb-1'' True, worker ''lb-0'' True])
   \<and> distinct (map Name (Statuses (proxy_PodStatuses
        (mk_proxy [worker ''lb-0'' True, worker ''lb-1'' True]))))
   \<and> 1 < length (Statuses (proxy_PodStatuses
        (mk_proxy [worker ''lb-0'' True, worker ''lb-1'' True])))
   \<and> change_fields False ''node-1'' ''Running''
        (Statuses (proxy_PodStatuses (mk_proxy [worker ''lb-0'' True, worker ''lb-1'' True])) ! 1)
      \<noteq> Statuses (proxy_PodStatuses (mk_proxy [worker ''lb-0'' True, worker ''lb-1'' True])) ! 1
   \<and> \<not> ProxyStatusEqual
        (proxy_change_worker 1 False ''node-1'' ''Running''
           (mk_proxy [worker ''lb-0'' True, worker ''lb-1'' True]))
        (mk_proxy [worker ''lb-1'' True, worker ''lb-0'' True])
   \<and> 1 < length (Statuses (proxy_PodStatuses
        (mk_proxy [worker ''lb-1'' True, worker ''lb-0'' True])))
   \<and> change_fields False ''node-1'' ''Running''
        (Statuses (proxy_PodStatuses (mk_proxy [worker ''lb-1'' True, worker ''lb-0'' True])) ! 1)
      \<noteq> Statuses (proxy_PodStatuses (mk_proxy [worker ''lb-1'' True, worker ''lb-0'' True])) ! 1
   \<and> \<not> ProxyStatusEqual
        (mk_proxy [worker ''lb-0'' True, worker ''lb-1'' True])
        (proxy_change_worker 1 False ''node-1'' ''Running''
           (mk_proxy [worker ''lb-1'' True, worker ''lb-0'' True]))"
proof -
  let ?p = "mk_proxy [worker ''lb-0'' True, worker ''lb-1'' True]"
  let ?q = "mk_proxy [worker ''lb-1'' True, worker ''lb-0'' True]"
  have e: "ProxyStatusEqual ?p ?q"
    by (simp add: equal_defs aggregate_example_defs)
  have d: "distinct (map Name (Statuses (proxy_PodStatuses ?p)))"
    by (simp add: aggregate_example_defs)
  have lp: "1 < length (Statuses (proxy_PodStatuses ?p))"
    and lq: "1 < length (Statuses (proxy_PodStatuses ?q))"
    by (simp_all add: aggregate_example_defs)
  have cp: "change_fields False ''node-1'' ''Running'' (Statuses (proxy_PodStatuses ?p) ! 1)
      \<noteq> Statuses (proxy_PodStatuses ?p) ! 1"
    and cq: "change_fields False ''node-1'' ''Running'' (Statuses (proxy_PodStatuses ?q) ! 1)
      \<noteq> Statuses (proxy_PodStatuses ?q) ! 1"
    by (simp_all add: aggregate_example_defs change_fields_def)
  from worker_change_detected [OF e d, of 1 False "''node-1''" "''Running''"] lp lq cp cq
  have "\<not> ProxyStatusEqual (proxy_change_worker 1 False ''node-1'' ''Running'' ?p) ?q"
    and "\<not> ProxyStatusEqual ?p (proxy_change_worker 1 False ''node-1'' ''Running'' ?q)"
    by blast+
  with e d lp lq cp cq show ?thesis by blast
qed

subsection \<open>C7: reflexivity\<close>

text \<open>
  C7, as stated, fails: for a worker that comes after another one of the same name,
  the inner loop stops at the earlier one. An aggregate that lists \<open>lb-0\<close> twice, once
  ready and once not, is not equal to itself, for any of the three comparators.
\<close>

theorem comparators_reflexive_counterexample:
  "\<not> PodStatusesEqual (mk_statuses [worker ''lb-0'' True, worker ''lb-0'' False])
        (mk_statuses [worker ''lb-0'' True, worker ''lb-0'' False])
   \<and> \<not> ProxyStatusEqual (mk_proxy [worker ''lb-0'' True, worker ''lb-0'' False])
        (mk_proxy [worker ''lb-0'' True, worker ''lb-0'' False])
   \<and> \<not> IpvsdrProviderStatusEqual (mk_ipvsdr [worker ''lb-0'' True, worker ''lb-0'' False])
        (mk_ipvsdr [worker ''lb-0'' True, worker ''lb-0'' False])"
  by (simp add: equal_defs aggregate_example_defs)

text \<open>
  C7, amended: for every aggregate \<open>x\<close>, of either kind, in which no two workers share
  a \<open>Name\<close>, the comparator applied to \<open>x\<close> and \<open>x\<close> returns true; so does
  \<open>PodStatusesEqual\<close> on a worker set with that property.
\<close>

theorem comparators_reflexive:
  fixes a :: "'c PodStatuses" and p :: "('d::zero, 's) ProxyStatus"
    and v :: "('e::zero, 't) IpvsdrProviderStatus"
  shows "(distinct (map Name (Statuses a)) \<longrightarrow> PodStatusesEqual a a)
   \<and> (distinct (map Name (Statuses (proxy_PodStatuses p))) \<longrightarrow> ProxyStatusEqual p p)
   \<and> (distinct (map Name (Statuses (ipvsdr_PodStatuses v))) \<longrightarrow> IpvsdrProviderStatusEqual v v)"
  by (simp add: PodStatusesEqual_iff ProxyStatusEqual_iff IpvsdrProviderStatusEqual_iff
        all_matched_distinct)


theorem comparators_reflexive_witness:
  "distinct (map Name (Statuses (mk_statuses [worker ''lb-0'' True, worker ''lb-1'' False])))
   \<and> PodStatusesEqual (mk_statuses [worker ''lb-0'' True, worker ''lb-1'' False])
       (mk_statuses [worker ''lb-0'' True, worker ''lb-1'' False])
   \<and> distinct (map Name (Statuses (proxy_PodStatuses
       (mk_proxy [worker ''lb-0'' True, worker ''lb-1'' False]))))
   \<and> ProxyStatusEqual (mk_proxy [worker ''lb-0'' True, worker ''lb-1'' False])
       (mk_proxy [worker ''lb-0'' True, worker ''lb-1'' False])
   \<and> distinct (map Name (Statuses (ipvsdr_PodStatuses
       (mk_ipvsdr [worker ''lb-0'' True, worker ''lb-1'' False]))))
   \<and> IpvsdrProviderStatusEqual (mk_ipvsdr [worker ''lb-0'' True, worker ''lb-1'' False])
       (mk_ipvsdr [worker ''lb-0'' True, worker ''lb-1'' False])"
proof -
  let ?ws = "[worker ''lb-0'' True, worker ''lb-1'' False]"
  have d: "distinct (map Name (Statuses (mk_statuses ?ws)))"
    "distinct (map Name (Statuses (proxy_PodStatuses (mk_proxy ?ws))))"
    "distinct (map Name (Statuses (ipvsdr_PodStatuses (mk_ipvsdr ?ws))))"
    by (simp_all add: aggregate_example_defs)
  from comparators_reflexive [of "mk_statuses ?ws" "mk_proxy ?ws" "mk_ipvsdr ?ws"] d
  have "PodStatusesEqual (mk_statuses ?ws) (mk_statuses ?ws)"
    and "ProxyStatusEqual (mk_proxy ?ws) (mk_proxy ?ws)"
    and "IpvsdrProviderStatusEqual (mk_ipvsdr ?ws) (mk_ipvsdr ?ws)"
    by blast+
  with d show ?thesis by blast
qed

section \<open>Properties of SplitNamespaceAndNameByDot and the failure cases\<close>












section \<open>Properties of CalculateReplicas\<close>

text \<open>
  C9. \<open>CalculateReplicas\<close> returns the declared replica count (0 when it is absent) and
  no node affinity when no node names are given; when node names are given it returns
  their number, converted to \<^verbatim>\<open>int32\<close> as the code does (the number itself below
  \<open>2 ^ 31\<close> names), and node affinity. Node affinity is required exactly when the list of
  node names is not empty.
\<close>

theorem replicas_policy:
  "CalculateReplicas lb =
     (if Names (Nodes (lb_Spec lb)) = []
      then (case Replicas (Nodes (lb_Spec lb)) of Some r \<Rightarrow> r | None \<Rightarrow> 0, False)
      else (int32_of_int (len (Names (Nodes (lb_Spec lb)))), True))
   \<and> (snd (CalculateReplicas lb) \<longleftrightarrow> Names (Nodes (lb_Spec lb)) \<noteq> [])
   \<and> (Names (Nodes (lb_Spec lb)) \<noteq> [] \<and> length (Names (Nodes (lb_Spec lb))) < 2 ^ 31 \<longrightarrow>
        sint (fst (CalculateReplicas lb)) = int (length (Names (Nodes (lb_Spec lb)))))"
proof -
  have "sint (int32_of_int (len xs)) = int (length xs)" if "length xs < 2 ^ 31" for xs :: "string list"
  proof -
    from that have "int (length xs) < 2 ^ 31"
      by (metis of_nat_less_iff of_nat_numeral of_nat_power)
    then show ?thesis by (simp add: len_def sint_int32_of_int)
  qed
  then show ?thesis
    by (simp add: CalculateReplicas_def Let_def len_def)
qed

theorem replicas_policy_witness:
  "CalculateReplicas (mk_lb (Some 3) []) = (3, False)
   \<and> CalculateReplicas (mk_lb None []) = (0, False)
   \<and> Names (Nodes (lb_Spec (mk_lb (Some 3) [''a'', ''b'']))) \<noteq> []
   \<and> length (Names (Nodes (lb_Spec (mk_lb (Some 3) [''a'', ''b''])))) < 2 ^ 31
   \<and> CalculateReplicas (mk_lb (Some 3) [''a'', ''b'']) = (2, True)
   \<and> sint (fst (CalculateReplicas (mk_lb (Some 3) [''a'', ''b'']))) = 2"
proof -
  have h: "Names (Nodes (lb_Spec (mk_lb (Some 3) [''a'', ''b'']))) \<noteq> []"
    "length (Names (Nodes (lb_Spec (mk_lb (Some 3) [''a'', ''b''])))) < 2 ^ 31"
    by (simp_all add: mk_lb_def)
  have l: "int (length (Names (Nodes (lb_Spec (mk_lb (Some 3) [''a'', ''b'']))))) = 2"
    by (simp add: mk_lb_def)
  from replicas_policy [of "mk_lb (Some 3) [''a'', ''b'']"] h
  have "sint (fst (CalculateReplicas (mk_lb (Some 3) [''a'', ''b''])))
      = int (length (Names (Nodes (lb_Spec (mk_lb (Some 3) [''a'', ''b''])))))"
    by blast
  with l have "sint (fst (CalculateReplicas (mk_lb (Some 3) [''a'', ''b'']))) = 2"
    by (simp only:)
  moreover have "CalculateReplicas (mk_lb (Some 3) []) = (3, False)"
    "CalculateReplicas (mk_lb None []) = (0, False)"
    "CalculateReplicas (mk_lb (Some 3) [''a'', ''b'']) = (2, True)"
    by (simp_all add: CalculateReplicas_def mk_lb_def len_def int32_of_int_def)
  ultimately show ?thesis using h by blast
qed

end
